theory Spec2Isabelle
  imports Complex_Main "HOL-Library.Word"
begin

section \<open>IRIS model backend: few-shot eye-disease classifier\<close>

text \<open>
  The repository has two request handlers for \<open>POST /predict/\<close>:
  \<^item> \<open>model_backend/backend.py\<close>: the working handler (decode, resize, encode, cosine
    similarity against the support set, arg-max, label lookup);
  \<^item> \<open>model_backend/app/main.py\<close>: a sketch with the rich diagnostic payload and the static
    metadata tables.
  The image decoder (PIL), the preprocessing pipeline (torchvision), the encoder (a traced
  network) and the similarity routine (scikit-learn on numpy arrays) are libraries. The
  decoder, the preprocessing and the encoder are parameters of the model.

  The arrays of the program hold 32-bit floating-point numbers. A cell of an array is
  here a real number or the mark \<open>None\<close> for a value that is no finite number (NaN or
  an infinity). The similarity routine is written out after the library's algorithm with
  its arithmetic taken exactly; where the library rounds, its scores differ from the ones
  of this routine. So the statements about the classifier take the routine as a
  parameter and ask only that its scores are within a tolerance of the exact cosine
  similarities; the written-out routine is used for the handler and for the runs on
  concrete arrays, which are chosen so that every operation on them is exact in 32 bits.
\<close>

subsection \<open>Exceptions\<close>

datatype py_error =
    UnidentifiedImageError
  | ValueError
  | IndexError
  | TypeError
  | NameError string

subsection \<open>Vectors and arrays\<close>

type_synonym vec = "real list"
type_synonym matrix = "real list list"
type_synonym f32 = "real option"
type_synonym farray = "f32 list list"
type_synonym byte = "8 word"

text \<open>An array all of whose cells are finite, and the finite values of an array if
  all its cells are finite.\<close>

definition finite_array :: "matrix \<Rightarrow> farray" where
  "finite_array M = map (map Some) M"

definition finite_values :: "farray \<Rightarrow> matrix option" where
  "finite_values A = those (map those A)"

text \<open>The machine epsilon of the 32-bit format, \<open>np.finfo(np.float32).eps\<close>.\<close>

definition float32_eps :: real where
  "float32_eps = 1 / 8388608"

text \<open>The inner product of two rows.\<close>

definition dot :: "vec \<Rightarrow> vec \<Rightarrow> real" where
  "dot x y = sum_list (map (\<lambda>(a, b). a * b) (zip x y))"

text \<open>\<open>row_norms\<close>: the Euclidean norm of one row.\<close>

definition row_norm :: "vec \<Rightarrow> real" where
  "row_norm x = sqrt (dot x x)"

text \<open>\<open>_handle_zeros_in_scale\<close> on the array of norms: a norm below ten times the
  machine epsilon is replaced by one, so the division that follows never divides by zero
  and leaves a row that small as it is.\<close>

definition handle_zeros_in_scale :: "real \<Rightarrow> real" where
  "handle_zeros_in_scale s = (if s < 10 * float32_eps then 1 else s)"

text \<open>Division, multiplication and addition of cells. A division by zero gives no
  finite number, and a value that is no finite number stays so through every
  operation.\<close>

definition fdiv :: "real \<Rightarrow> real \<Rightarrow> f32" where
  "fdiv v d = (if d = 0 then None else Some (v / d))"

definition fmul :: "f32 \<Rightarrow> f32 \<Rightarrow> f32" where
  "fmul a b = (case a of None \<Rightarrow> None | Some x \<Rightarrow> (case b of None \<Rightarrow> None | Some y \<Rightarrow> Some (x * y)))"

definition fadd :: "f32 \<Rightarrow> f32 \<Rightarrow> f32" where
  "fadd a b = (case a of None \<Rightarrow> None | Some x \<Rightarrow> (case b of None \<Rightarrow> None | Some y \<Rightarrow> Some (x + y)))"

text \<open>\<open>normalize(X, copy=True)\<close> on the values of the array: every row divided by its
  guarded norm.\<close>

definition normalize_row :: "vec \<Rightarrow> f32 list" where
  "normalize_row x = map (\<lambda>v. fdiv v (handle_zeros_in_scale (row_norm x))) x"

definition normalize_l2 :: "matrix \<Rightarrow> farray" where
  "normalize_l2 X = map normalize_row X"

text \<open>\<open>check_pairwise_arrays\<close>: both arguments are two-dimensional arrays of finite
  numbers with at least one row and one column, and with the same number of columns; the
  checked arrays are returned. A list of rows of different lengths is no array and is
  refused as well.\<close>

definition check_pairwise_arrays :: "farray \<Rightarrow> farray \<Rightarrow> py_error + matrix \<times> matrix" where
  "check_pairwise_arrays X Y =
     (case finite_values X of
        None \<Rightarrow> Inl ValueError
      | Some X' \<Rightarrow>
          (case finite_values Y of
             None \<Rightarrow> Inl ValueError
           | Some Y' \<Rightarrow>
               (case X' of
                  [] \<Rightarrow> Inl ValueError
                | x # _ \<Rightarrow>
                    if Y' = [] then Inl ValueError
                    else if length x = 0 then Inl ValueError
                    else if \<not> list_all (\<lambda>r. length r = length x) X' then Inl ValueError
                    else if \<not> list_all (\<lambda>r. length r = length x) Y' then Inl ValueError
                    else Inr (X', Y'))))"

text \<open>The product \<open>A @ B.T\<close>: entry \<open>(i, j)\<close> is the inner product of row \<open>i\<close> of
  \<open>A\<close> and row \<open>j\<close> of \<open>B\<close>.\<close>

definition fdot :: "f32 list \<Rightarrow> f32 list \<Rightarrow> f32" where
  "fdot x y = foldr fadd (map (\<lambda>(a, b). fmul a b) (zip x y)) (Some 0)"

definition matmul_transposed :: "farray \<Rightarrow> farray \<Rightarrow> farray" where
  "matmul_transposed A B = map (\<lambda>a. map (\<lambda>b. fdot a b) B) A"

text \<open>\<open>cosine_similarity(X, Y)\<close>: check, normalise both, multiply.\<close>

definition cosine_similarity :: "farray \<Rightarrow> farray \<Rightarrow> py_error + farray" where
  "cosine_similarity X Y =
     (case check_pairwise_arrays X Y of
        Inl e \<Rightarrow> Inl e
      | Inr (X', Y') \<Rightarrow> Inr (matmul_transposed (normalize_l2 X') (normalize_l2 Y')))"

text \<open>\<open>ndarray.argmax()\<close> on the flattened array: one pass that keeps the position
  of the best value so far and replaces it only by a value that is not less than or
  equal to it: a strictly greater one, or the first NaN, after which nothing replaces
  it. An empty array raises.\<close>

definition exceeds :: "f32 \<Rightarrow> f32 \<Rightarrow> bool" where
  "exceeds x best =
     (case best of
        None \<Rightarrow> False
      | Some b \<Rightarrow> (case x of None \<Rightarrow> True | Some v \<Rightarrow> b < v))"

fun argmax_from :: "nat \<Rightarrow> f32 \<Rightarrow> nat \<Rightarrow> f32 list \<Rightarrow> nat" where
  "argmax_from best bv i [] = best"
| "argmax_from best bv i (x # xs) =
     (if exceeds x bv then argmax_from i x (Suc i) xs else argmax_from best bv (Suc i) xs)"

definition argmax :: "farray \<Rightarrow> py_error + nat" where
  "argmax A =
     (case concat A of
        [] \<Rightarrow> Inl ValueError
      | x # xs \<Rightarrow> Inr (argmax_from 0 x 1 xs))"

subsection \<open>The nearest-neighbour classifier (backend.py, lines 43 to 46)\<close>

text \<open>
  \<^verbatim>\<open>similarities = cosine_similarity(predicted_embedding.reshape(1, -1), support_embeddings_np)\<close>
  \<^verbatim>\<open>predicted_class_id = int(similarities.argmax())\<close>
  The similarity routine \<open>sim\<close> is the library function the source calls. The result is
  the class index with the row of scores it was taken from. The handler below runs the
  same steps on buffers, with the written-out routine, and \<open>predict_valid\<close> shows that
  its answer is the one of \<open>classify cosine_similarity\<close>.
\<close>

definition classify ::
  "(farray \<Rightarrow> farray \<Rightarrow> py_error + farray) \<Rightarrow> vec \<Rightarrow> farray \<Rightarrow> py_error + (nat \<times> f32 list)" where
  "classify sim q S =
     (case sim [map Some q] S of
        Inl e \<Rightarrow> Inl e
      | Inr similarities \<Rightarrow>
          (case argmax similarities of
             Inl e \<Rightarrow> Inl e
           | Inr k \<Rightarrow> Inr (k, concat similarities)))"

text \<open>The cosine of the angle between two rows, as the specification writes it, in
  exact arithmetic; where a norm is zero the quotient does not exist and the value is
  taken as zero.\<close>

definition cosine :: "vec \<Rightarrow> vec \<Rightarrow> real" where
  "cosine q s =
     (if row_norm q = 0 \<or> row_norm s = 0 then 0
      else dot q s / (row_norm q * row_norm s))"

text \<open>The score of the written-out routine for two rows, in closed form.\<close>

definition guarded_cosine :: "vec \<Rightarrow> vec \<Rightarrow> real" where
  "guarded_cosine q s =
     dot q s / (handle_zeros_in_scale (row_norm q) * handle_zeros_in_scale (row_norm s))"


text \<open>What \<open>check_pairwise_arrays\<close> accepts when the first argument is the one-row
  array of the query: a query with at least one component, at least one support row, and
  every support row as long as the query and made of finite numbers.\<close>

definition well_formed :: "vec \<Rightarrow> farray \<Rightarrow> bool" where
  "well_formed q S \<longleftrightarrow>
     q \<noteq> [] \<and> S \<noteq> [] \<and>
     list_all (\<lambda>s. length s = length q \<and> list_all (\<lambda>v. v \<noteq> None) s) S"

subsection \<open>Arrays in memory\<close>

text \<open>
  A numpy array or a tensor is a buffer that several names can share:
  \<open>support_embeddings.cpu().numpy()\<close> is a view of the buffer of the global tensor, not a
  copy. The store is the list of all buffers, an address is a position in it, and a new
  buffer goes to the end.
\<close>

type_synonym addr = nat
type_synonym heap = "farray list"

definition alloc :: "heap \<Rightarrow> farray \<Rightarrow> addr \<times> heap" where
  "alloc h A = (length h, h @ [A])"

text \<open>\<open>normalize(X, copy=True)\<close> on buffers: \<open>check_array\<close> copies the argument into a
  new buffer and refuses values that are not finite, and the division by the norms is
  done in place on that copy.\<close>

definition normalize_copy :: "heap \<Rightarrow> addr \<Rightarrow> (py_error + addr) \<times> heap" where
  "normalize_copy h a =
     (let (b, h1) = alloc h (h ! a)
      in case finite_values (h1 ! b) of
           None \<Rightarrow> (Inl ValueError, h1)
         | Some M \<Rightarrow> (Inr b, h1[b := normalize_l2 M]))"

text \<open>\<open>cosine_similarity\<close> on buffers: the check reads both arguments, each is
  normalised into a copy, and the product is a new buffer.\<close>

definition cosine_similarity_at :: "heap \<Rightarrow> addr \<Rightarrow> addr \<Rightarrow> (py_error + addr) \<times> heap" where
  "cosine_similarity_at h X Y =
     (case check_pairwise_arrays (h ! X) (h ! Y) of
        Inl e \<Rightarrow> (Inl e, h)
      | Inr _ \<Rightarrow>
          (case normalize_copy h X of
             (Inl e, h1) \<Rightarrow> (Inl e, h1)
           | (Inr X_normalized, h1) \<Rightarrow>
               (case normalize_copy h1 Y of
                  (Inl e, h2) \<Rightarrow> (Inl e, h2)
                | (Inr Y_normalized, h2) \<Rightarrow>
                    (let (K, h3) =
                           alloc h2 (matmul_transposed (h2 ! X_normalized) (h2 ! Y_normalized))
                     in (Inr K, h3)))))"

subsection \<open>The request handler of backend.py\<close>

text \<open>
  The module-level state that requests share: the name \<open>support_embeddings\<close> bound to a
  tensor (its buffer's address), the list \<open>support_labels\<close>, and the store.
\<close>

record server_state =
  support_embeddings :: addr
  support_labels :: "string list"
  heap :: heap

text \<open>
  The libraries the handler calls: \<open>decode\<close> is
  \<open>Image.open(io.BytesIO(b)).convert('RGB')\<close> and raises on bytes that are no image,
  \<open>transform\<close> is the resize to 224 by 224 followed by the conversion to a tensor, and
  \<open>model\<close> is the traced encoder, giving the embedding of one image.
\<close>

record ('img, 'tens) libraries =
  decode :: "byte list \<Rightarrow> py_error + 'img"
  transform :: "'img \<Rightarrow> 'tens"
  model :: "'tens \<Rightarrow> vec"

text \<open>An empty payload is never an image: the decoder cannot identify it.\<close>

definition image_open :: "('img, 'tens) libraries \<Rightarrow> byte list \<Rightarrow> py_error + 'img" where
  "image_open lib image_bytes =
     (if image_bytes = [] then Inl UnidentifiedImageError else decode lib image_bytes)"

record prediction =
  predicted_class_id :: int
  predicted_class_label :: string

text \<open>Module initialisation: the embeddings are loaded from a file, the labels are
  the literal list of the source.\<close>

definition startup :: "farray \<Rightarrow> server_state" where
  "startup embeddings =
     \<lparr>support_embeddings = 0,
      support_labels =
        [''cataract'', ''healthy'', ''pterygium'', ''glaucoma'', ''keratoconus'',
         ''strabismus'', ''pink_eye'', ''stye'', ''trachoma'', ''uveitis''],
      heap = [embeddings]\<rparr>"

text \<open>
  \<open>predict\<close>: \<open>Inl\<close> is an exception that leaves the handler (the handler has no
  \<open>try\<close>), \<open>Inr\<close> is the JSON response. The second component is the shared state
  after the request. The \<open>print\<close> calls of the source write to the log only and are
  left out.
\<close>

definition predict ::
  "('img, 'tens) libraries \<Rightarrow> server_state \<Rightarrow> byte list \<Rightarrow> (py_error + prediction) \<times> server_state" where
  "predict lib st image_bytes =
     (case image_open lib image_bytes of
        Inl e \<Rightarrow> (Inl e, st)
      | Inr img \<Rightarrow>
          (let input_tensor = transform lib img;
               features = model lib input_tensor;
               (predicted_embedding, h1) = alloc (heap st) [map Some features];
               support_embeddings_np = support_embeddings st;
               (r, h2) = cosine_similarity_at h1 predicted_embedding support_embeddings_np
           in case r of
                Inl e \<Rightarrow> (Inl e, st\<lparr>heap := h2\<rparr>)
              | Inr similarities \<Rightarrow>
                  (case argmax (h2 ! similarities) of
                     Inl e \<Rightarrow> (Inl e, st\<lparr>heap := h2\<rparr>)
                   | Inr class_id \<Rightarrow>
                       if class_id < length (support_labels st)
                       then (Inr \<lparr>predicted_class_id = int class_id,
                                  predicted_class_label = support_labels st ! class_id\<rparr>,
                             st\<lparr>heap := h2\<rparr>)
                       else (Inl IndexError, st\<lparr>heap := h2\<rparr>))))"

text \<open>The global tensor exists: its address is in the store.\<close>

definition state_ok :: "server_state \<Rightarrow> bool" where
  "state_ok st \<longleftrightarrow> support_embeddings st < length (heap st)"

text \<open>A small instance of the libraries for concrete runs: the image of a non-empty
  payload is the list of its byte values, and the embedding is the image itself.\<close>

definition example_libraries :: "(vec, vec) libraries" where
  "example_libraries =
     \<lparr>decode = (\<lambda>bs. Inr (map (\<lambda>b. real (unat b)) bs)),
      transform = (\<lambda>img. img),
      model = (\<lambda>t. t)\<rparr>"

subsection \<open>The metadata resolver (app/main.py)\<close>

record recommendation_entry =
  recommendation :: string
  priority :: int

definition diagnoses :: "int \<rightharpoonup> string" where
  "diagnoses =
     [0 \<mapsto> ''Cataract detected. This is characterized by clouding of the eye's lens...'',
      1 \<mapsto> ''Healthy eye. No significant issues detected...'']"

definition get_diagnosis_text :: "int \<Rightarrow> string" where
  "get_diagnosis_text class_idx =
     (case diagnoses class_idx of None \<Rightarrow> ''Unknown condition'' | Some d \<Rightarrow> d)"

definition recommendations :: "int \<rightharpoonup> recommendation_entry list" where
  "recommendations =
     [0 \<mapsto>
        [\<lparr>recommendation = ''Schedule an appointment with an ophthalmologist'', priority = 1\<rparr>,
         \<lparr>recommendation = ''Avoid driving at night'', priority = 2\<rparr>]]"

definition get_recommendations :: "int \<Rightarrow> recommendation_entry list" where
  "get_recommendations class_idx =
     (case recommendations class_idx of None \<Rightarrow> [] | Some rs \<Rightarrow> rs)"

definition calculate_severity :: "'f \<Rightarrow> int \<Rightarrow> string" where
  "calculate_severity features class_idx = ''moderate''"

subsection \<open>The request handler of app/main.py\<close>

text \<open>
  The handler reads names that no statement of the module binds. Name lookup is written
  out: a name is looked for among the locals of the call, then among the globals of the
  module, then among the builtins, and a name found nowhere raises \<open>NameError\<close>.
\<close>

datatype pyval = PyObject | PyInt int | PyMatrix matrix | PyStrings "string list"

record rich_prediction =
  classId :: int
  className :: string
  confidence :: real
  severity :: string
  diagnosis :: string
  recommendation_items :: "recommendation_entry list"

record rich_response =
  success :: bool
  prediction :: rich_prediction

text \<open>The globals of the module once the startup hook has run: the imports, the
  functions, and the three names the hook binds.\<close>

definition module_globals :: "matrix \<Rightarrow> string list \<Rightarrow> string \<rightharpoonup> pyval" where
  "module_globals features labels =
     map_of
      [(''FastAPI'', PyObject), (''File'', PyObject), (''UploadFile'', PyObject),
       (''torch'', PyObject), (''Image'', PyObject), (''io'', PyObject), (''np'', PyObject),
       (''pickle'', PyObject), (''os'', PyObject), (''app'', PyObject),
       (''load_model'', PyObject), (''predict'', PyObject), (''health_check'', PyObject),
       (''calculate_severity'', PyObject), (''get_diagnosis_text'', PyObject),
       (''get_recommendations'', PyObject),
       (''model'', PyObject), (''support_features'', PyMatrix features),
       (''support_labels'', PyStrings labels)]"

text \<open>The functions of the builtins namespace (its exception classes and constants
  have names of another shape and are not listed).\<close>

definition builtin_names :: "string list" where
  "builtin_names =
     [''abs'', ''all'', ''any'', ''ascii'', ''bin'', ''bool'', ''bytearray'', ''bytes'',
      ''callable'', ''chr'', ''classmethod'', ''compile'', ''complex'', ''delattr'', ''dict'',
      ''dir'', ''divmod'', ''enumerate'', ''eval'', ''exec'', ''filter'', ''float'', ''format'',
      ''frozenset'', ''getattr'', ''globals'', ''hasattr'', ''hash'', ''help'', ''hex'', ''id'',
      ''input'', ''int'', ''isinstance'', ''issubclass'', ''iter'', ''len'', ''list'', ''locals'',
      ''map'', ''max'', ''memoryview'', ''min'', ''next'', ''object'', ''oct'', ''open'', ''ord'',
      ''pow'', ''print'', ''property'', ''range'', ''repr'', ''reversed'', ''round'', ''set'',
      ''setattr'', ''slice'', ''sorted'', ''staticmethod'', ''str'', ''sum'', ''super'',
      ''tuple'', ''type'', ''vars'', ''zip'']"

definition load_name ::
  "(string \<rightharpoonup> pyval) \<Rightarrow> (string \<rightharpoonup> pyval) \<Rightarrow> string \<Rightarrow> py_error + pyval" where
  "load_name locals globals n =
     (case locals n of
        Some v \<Rightarrow> Inr v
      | None \<Rightarrow>
          (case globals n of
             Some v \<Rightarrow> Inr v
           | None \<Rightarrow> if n \<in> set builtin_names then Inr PyObject else Inl (NameError n)))"

definition bind_result :: "py_error + 'a \<Rightarrow> ('a \<Rightarrow> py_error + 'b) \<Rightarrow> py_error + 'b" where
  "bind_result r f = (case r of Inl e \<Rightarrow> Inl e | Inr v \<Rightarrow> f v)"

text \<open>Indexing a list: a negative index counts from the end, an index out of range
  raises.\<close>

definition getitem :: "'a list \<Rightarrow> int \<Rightarrow> py_error + 'a" where
  "getitem xs i =
     (if 0 \<le> i \<and> i < int (length xs) then Inr (xs ! nat i)
      else if i < 0 \<and> - int (length xs) \<le> i then Inr (xs ! nat (int (length xs) + i))
      else Inl IndexError)"

definition as_int :: "pyval \<Rightarrow> py_error + int" where
  "as_int v = (case v of PyInt i \<Rightarrow> Inr i | _ \<Rightarrow> Inl TypeError)"

definition as_strings :: "pyval \<Rightarrow> py_error + string list" where
  "as_strings v = (case v of PyStrings l \<Rightarrow> Inr l | _ \<Rightarrow> Inl TypeError)"

definition as_matrix :: "pyval \<Rightarrow> py_error + matrix" where
  "as_matrix v = (case v of PyMatrix A \<Rightarrow> Inr A | _ \<Rightarrow> Inl TypeError)"

text \<open>
  \<open>predict\<close> of app/main.py. The locals at the first lookup are the parameter and the
  two assignments before it; the names are read in the order Python evaluates them.
\<close>

definition main_predict ::
  "('img, 'tens) libraries \<Rightarrow> (string \<rightharpoonup> pyval) \<Rightarrow> byte list \<Rightarrow> py_error + rich_response" where
  "main_predict lib globals image_data =
     (case image_open lib image_data of
        Inl e \<Rightarrow> Inl e
      | Inr img \<Rightarrow>
          (let locals = [''file'' \<mapsto> PyObject, ''image_data'' \<mapsto> PyObject, ''image'' \<mapsto> PyObject]
           in
           bind_result (load_name locals globals ''model'') (\<lambda>_.
           bind_result (load_name locals globals ''image_tensor'') (\<lambda>_.
           let locals = locals(''image_features'' \<mapsto> PyObject) in
           bind_result (load_name locals globals ''best_class_idx'') (\<lambda>idx.
           bind_result (load_name locals globals ''support_labels'') (\<lambda>labels.
           bind_result (as_strings labels) (\<lambda>labels.
           bind_result (as_int idx) (\<lambda>best_class_idx.
           bind_result (getitem labels best_class_idx) (\<lambda>class_name.
           bind_result (load_name locals globals ''float'') (\<lambda>_.
           bind_result (load_name locals globals ''similarity'') (\<lambda>similarity.
           bind_result (as_matrix similarity) (\<lambda>similarity.
           bind_result (getitem similarity 0) (\<lambda>row.
           bind_result (getitem row best_class_idx) (\<lambda>score.
           bind_result (load_name locals globals ''calculate_severity'') (\<lambda>_.
           bind_result (load_name locals globals ''image_features'') (\<lambda>image_features.
           bind_result (load_name locals globals ''get_diagnosis_text'') (\<lambda>_.
           bind_result (load_name locals globals ''get_recommendations'') (\<lambda>_.
           Inr \<lparr>success = True,
                prediction =
                  \<lparr>classId = best_class_idx,
                   className = class_name,
                   confidence = score,
                   severity = calculate_severity image_features best_class_idx,
                   diagnosis = get_diagnosis_text best_class_idx,
                   recommendation_items = get_recommendations best_class_idx\<rparr>\<rparr>
           ))))))))))))))))))"

section \<open>Properties\<close>

subsection \<open>Metadata resolver\<close>

lemma dom_diagnoses: "dom diagnoses = {0, 1}"
  by (auto simp: diagnoses_def)

lemma dom_recommendations: "dom recommendations = {0}"
  by (auto simp: recommendations_def)

text \<open>
  Claim C6. A class index that is no key of the diagnosis table gets the text
  \<open>Unknown condition\<close> from \<open>get_diagnosis_text\<close>, and a class index that is no key
  of the recommendation table gets the empty list from \<open>get_recommendations\<close>.
\<close>

theorem metadata_defaults:
  "(class_idx \<notin> dom diagnoses \<longrightarrow> get_diagnosis_text class_idx = ''Unknown condition'') \<and>
   (class_idx \<notin> dom recommendations \<longrightarrow> get_recommendations class_idx = [])"
  by (auto simp: get_diagnosis_text_def get_recommendations_def dom_def)

theorem metadata_defaults_witness:
  "7 \<notin> dom diagnoses \<and> 7 \<notin> dom recommendations \<and>
   get_diagnosis_text 7 = ''Unknown condition'' \<and> get_recommendations 7 = []"
  using metadata_defaults [of 7] by (simp add: dom_diagnoses dom_recommendations)

subsection \<open>Arrays of finite numbers\<close>

lemma those_map_Some [simp]: "those (map Some xs) = Some xs"
  by (induction xs) simp_all

lemma finite_values_finite_array [simp]: "finite_values (finite_array M) = Some M"
  unfolding finite_values_def finite_array_def
  by (induction M) simp_all

lemma those_eq_Some: "those xs = Some ys \<longleftrightarrow> xs = map Some ys"
proof (induction xs arbitrary: ys)
  case Nil
  then show ?case by auto
next
  case (Cons x xs)
  then show ?case by (cases x) (auto simp: map_option_case split: option.splits)
qed

lemma list_all_not_None: "list_all (\<lambda>v. v \<noteq> None) s \<longleftrightarrow> (\<exists>r. s = map Some r)"
proof (induction s)
  case Nil
  then show ?case by simp
next
  case (Cons a s)
  show ?case
  proof
    assume "list_all (\<lambda>v. v \<noteq> None) (a # s)"
    then obtain x r where "a = Some x" "s = map Some r" using Cons by auto
    then have "a # s = map Some (x # r)" by simp
    then show "\<exists>r. a # s = map Some r" by (rule exI)
  next
    assume "\<exists>r. a # s = map Some r"
    then show "list_all (\<lambda>v. v \<noteq> None) (a # s)" by (auto simp: list_all_iff)
  qed
qed

lemma map_those_eq: "map those A = map Some M \<longleftrightarrow> A = map (map Some) M"
proof (induction A arbitrary: M)
  case Nil
  then show ?case by auto
next
  case (Cons a A)
  then show ?case by (cases M) (auto simp: those_eq_Some)
qed

lemma finite_values_eq_Some: "finite_values A = Some M \<longleftrightarrow> A = finite_array M"
  by (simp add: finite_values_def finite_array_def those_eq_Some map_those_eq)

lemma well_formed_finite:
  "well_formed q S \<Longrightarrow> \<exists>M. S = finite_array M \<and> M \<noteq> [] \<and> list_all (\<lambda>s. length s = length q) M"
proof -
  assume wf: "well_formed q S"
  have "\<forall>s\<in>set S. \<exists>r. s = map Some r"
    using wf by (auto simp: well_formed_def list_all_iff list_all_not_None [symmetric])
  then have "\<exists>M. S = map (map Some) M"
  proof (induction S)
    case Nil
    then show ?case by simp
  next
    case (Cons s S)
    then obtain r M where "s = map Some r" "S = map (map Some) M" by auto
    then have "s # S = map (map Some) (r # M)" by simp
    then show ?case by (rule exI)
  qed
  then obtain M where M: "S = finite_array M" by (auto simp: finite_array_def)
  have "M \<noteq> []" using wf M by (auto simp: well_formed_def finite_array_def)
  moreover have "list_all (\<lambda>s. length s = length q) M"
    using wf M by (auto simp: well_formed_def finite_array_def list_all_iff)
  ultimately show ?thesis using M by blast
qed

lemma well_formed_finite_array:
  "well_formed q (finite_array M) \<longleftrightarrow> q \<noteq> [] \<and> M \<noteq> [] \<and> list_all (\<lambda>s. length s = length q) M"
  by (auto simp: well_formed_def finite_array_def list_all_iff)

subsection \<open>Inner products, norms and the Cauchy-Schwarz inequality\<close>

lemma dot_Nil [simp]: "dot [] y = 0" "dot x [] = 0"
  by (simp_all add: dot_def)

lemma dot_Cons [simp]: "dot (a # x) (b # y) = a * b + dot x y"
  by (simp add: dot_def)

lemma dot_self_nonneg: "0 \<le> dot x x"
  by (induction x) simp_all

lemma dot_self_zero_iff: "dot x x = 0 \<longleftrightarrow> (\<forall>v\<in>set x. v = 0)"
proof (induction x)
  case Nil
  then show ?case by simp
next
  case (Cons a x)
  have "a * a + dot x x = 0 \<longleftrightarrow> a * a = 0 \<and> dot x x = 0"
    using dot_self_nonneg [of x] by (intro add_nonneg_eq_0_iff) simp_all
  with Cons show ?case by simp
qed

lemma row_norm_zero_iff: "row_norm x = 0 \<longleftrightarrow> (\<forall>v\<in>set x. v = 0)"
  by (simp add: row_norm_def dot_self_zero_iff)


lemma dot_zero_left: "\<forall>v\<in>set x. v = 0 \<Longrightarrow> dot x y = 0"
proof (induction x arbitrary: y)
  case Nil
  then show ?case by simp
next
  case (Cons a x)
  then show ?case by (cases y) simp_all
qed

lemma dot_zero_right: "\<forall>v\<in>set y. v = 0 \<Longrightarrow> dot x y = 0"
proof (induction y arbitrary: x)
  case Nil
  then show ?case by simp
next
  case (Cons a y)
  then show ?case by (cases x) simp_all
qed

lemma dot_scale_left: "dot (map (\<lambda>v. c * v) x) y = c * dot x y"
proof (induction x arbitrary: y)
  case Nil
  then show ?case by simp
next
  case (Cons a x)
  then show ?case by (cases y) (simp_all add: algebra_simps)
qed

lemma dot_scale_right: "dot x (map (\<lambda>v. c * v) y) = c * dot x y"
proof (induction y arbitrary: x)
  case Nil
  then show ?case by simp
next
  case (Cons a y)
  then show ?case by (cases x) (simp_all add: algebra_simps)
qed

lemma dot_divide_left: "dot (map (\<lambda>v. v / c) x) y = dot x y / c"
  using dot_scale_left [of "inverse c" x y] by (simp add: divide_inverse mult.commute)

lemma dot_divide_right: "dot x (map (\<lambda>v. v / c) y) = dot x y / c"
  using dot_scale_right [of x "inverse c" y] by (simp add: divide_inverse mult.commute)







lemma row_norm_axis [simp]: "row_norm [a, 0] = \<bar>a\<bar>" "row_norm [0, a] = \<bar>a\<bar>"
  by (simp_all add: row_norm_def)

subsection \<open>The written-out similarity routine\<close>

lemma handle_zeros_in_scale_pos: "0 < handle_zeros_in_scale s"
  by (simp add: handle_zeros_in_scale_def float32_eps_def not_less)

lemma normalize_row_Some:
  "normalize_row x = map Some (map (\<lambda>v. v / handle_zeros_in_scale (row_norm x)) x)"
  using handle_zeros_in_scale_pos [of "row_norm x"]
  by (simp add: normalize_row_def fdiv_def comp_def)

lemma fdot_Some: "fdot (map Some x) (map Some y) = Some (dot x y)"
proof (induction x arbitrary: y)
  case Nil
  then show ?case by (simp add: fdot_def)
next
  case (Cons a x)
  show ?case
  proof (cases y)
    case Nil
    then show ?thesis by (simp add: fdot_def)
  next
    case (Cons b y')
    have "fdot (map Some (a # x)) (map Some (b # y')) =
        fadd (fmul (Some a) (Some b)) (fdot (map Some x) (map Some y'))"
      by (simp add: fdot_def)
    then show ?thesis
      by (simp add: Cons Cons.IH fadd_def fmul_def)
  qed
qed

lemma fdot_normalized: "fdot (normalize_row q) (normalize_row s) = Some (guarded_cosine q s)"
  unfolding normalize_row_Some fdot_Some
  by (simp add: dot_divide_left dot_divide_right guarded_cosine_def)

lemma guarded_cosine_zero_query: "row_norm q = 0 \<Longrightarrow> guarded_cosine q s = 0"
  using dot_zero_left [of q s] by (simp add: guarded_cosine_def row_norm_zero_iff)

lemma guarded_cosine_eq_cosine:
  assumes "10 * float32_eps \<le> row_norm q" "10 * float32_eps \<le> row_norm s"
  shows "guarded_cosine q s = cosine q s"
proof -
  have "0 < 10 * float32_eps" by (simp add: float32_eps_def)
  then have "row_norm q \<noteq> 0" "row_norm s \<noteq> 0" using assms by linarith+
  then show ?thesis
    using assms by (simp add: guarded_cosine_def cosine_def handle_zeros_in_scale_def not_less)
qed

lemma check_pairwise_arrays_query:
  assumes "q \<noteq> []" "M \<noteq> []" "list_all (\<lambda>s. length s = length q) M"
  shows "check_pairwise_arrays [map Some q] (finite_array M) = Inr ([q], M)"
proof -
  have "[map Some q] = finite_array [q]" by (simp add: finite_array_def)
  then have "finite_values [map Some q] = Some [q]" by simp
  then show ?thesis
    using assms by (simp add: check_pairwise_arrays_def)
qed

lemma cosine_similarity_query:
  assumes "q \<noteq> []" "M \<noteq> []" "list_all (\<lambda>s. length s = length q) M"
  shows "cosine_similarity [map Some q] (finite_array M) =
     Inr [map Some (map (guarded_cosine q) M)]"
  by (simp add: cosine_similarity_def check_pairwise_arrays_query [OF assms] matmul_transposed_def
      normalize_l2_def fdot_normalized comp_def)

lemma example_scores:
  "cosine_similarity [[Some 1, Some 0]] (finite_array [[0, 1], [2, 0], [1, 0]]) =
     Inr [[Some 0, Some 1, Some 1]]"
  "cosine_similarity [[Some 1, Some 0]] (finite_array [[0, 1], [1, 0]]) = Inr [[Some 0, Some 1]]"
  "cosine_similarity [[Some 1, Some 0]] (finite_array [[0, 1], [3, 0]]) = Inr [[Some 0, Some 1]]"
  "cosine_similarity [[Some 1, Some 0]] (finite_array [[1, 0], [1, 0]]) = Inr [[Some 1, Some 1]]"
  "cosine_similarity [[Some 1, Some 0]] (finite_array [[1 / 16777216, 0], [1, 0]]) =
     Inr [[Some (1 / 16777216), Some 1]]"
  "cosine_similarity [[Some 1, Some 0]] (finite_array [[1 / 16777216, 0]]) =
     Inr [[Some (1 / 16777216)]]"
  using cosine_similarity_query [of "[1, 0]" "[[0, 1], [2, 0], [1, 0]]"]
    cosine_similarity_query [of "[1, 0]" "[[0, 1], [1, 0]]"]
    cosine_similarity_query [of "[1, 0]" "[[0, 1], [3, 0]]"]
    cosine_similarity_query [of "[1, 0]" "[[1, 0], [1, 0]]"]
    cosine_similarity_query [of "[1, 0]" "[[1 / 16777216, 0], [1, 0]]"]
    cosine_similarity_query [of "[1, 0]" "[[1 / 16777216, 0]]"]
  by (simp_all add: guarded_cosine_def handle_zeros_in_scale_def float32_eps_def)


subsection \<open>Arg-max: the first position of the greatest value\<close>

lemma argmax_from_spec:
  assumes "b < length pre" "pre ! b = bv" "\<forall>j<length pre. pre ! j \<le> bv"
    "\<forall>j<b. pre ! j < bv" "i = length pre"
  shows "argmax_from b (Some bv) i (map Some xs) < length (pre @ xs) \<and>
         (\<forall>j<length (pre @ xs). (pre @ xs) ! j \<le> (pre @ xs) ! argmax_from b (Some bv) i (map Some xs)) \<and>
         (\<forall>j<argmax_from b (Some bv) i (map Some xs).
            (pre @ xs) ! j < (pre @ xs) ! argmax_from b (Some bv) i (map Some xs))"
  using assms
proof (induction xs arbitrary: pre b bv i)
  case Nil
  then show ?case by simp
next
  case (Cons x xs)
  show ?case
  proof (cases "bv < x")
    case True
    have "argmax_from i (Some x) (Suc i) (map Some xs) < length ((pre @ [x]) @ xs) \<and>
         (\<forall>j<length ((pre @ [x]) @ xs).
            ((pre @ [x]) @ xs) ! j \<le> ((pre @ [x]) @ xs) ! argmax_from i (Some x) (Suc i) (map Some xs)) \<and>
         (\<forall>j<argmax_from i (Some x) (Suc i) (map Some xs).
            ((pre @ [x]) @ xs) ! j < ((pre @ [x]) @ xs) ! argmax_from i (Some x) (Suc i) (map Some xs))"
    proof (rule Cons.IH)
      show "i < length (pre @ [x])" using Cons.prems by simp
      show "(pre @ [x]) ! i = x" using Cons.prems by simp
      show "\<forall>j<length (pre @ [x]). (pre @ [x]) ! j \<le> x"
        using Cons.prems True by (auto simp: nth_append less_Suc_eq intro: less_imp_le order_trans)
      show "\<forall>j<i. (pre @ [x]) ! j < x"
        using Cons.prems True by (auto simp: nth_append intro: le_less_trans)
      show "Suc i = length (pre @ [x])" using Cons.prems by simp
    qed
    with True show ?thesis by (simp add: exceeds_def)
  next
    case False
    have "argmax_from b (Some bv) (Suc i) (map Some xs) < length ((pre @ [x]) @ xs) \<and>
         (\<forall>j<length ((pre @ [x]) @ xs).
            ((pre @ [x]) @ xs) ! j \<le> ((pre @ [x]) @ xs) ! argmax_from b (Some bv) (Suc i) (map Some xs)) \<and>
         (\<forall>j<argmax_from b (Some bv) (Suc i) (map Some xs).
            ((pre @ [x]) @ xs) ! j < ((pre @ [x]) @ xs) ! argmax_from b (Some bv) (Suc i) (map Some xs))"
    proof (rule Cons.IH)
      show "b < length (pre @ [x])" using Cons.prems by simp
      show "(pre @ [x]) ! b = bv" using Cons.prems by (simp add: nth_append)
      show "\<forall>j<length (pre @ [x]). (pre @ [x]) ! j \<le> bv"
        using Cons.prems False by (auto simp: nth_append less_Suc_eq)
      show "\<forall>j<b. (pre @ [x]) ! j < bv"
        using Cons.prems by (auto simp: nth_append)
      show "Suc i = length (pre @ [x])" using Cons.prems by simp
    qed
    with False show ?thesis by (simp add: exceeds_def)
  qed
qed

lemma argmax_row:
  assumes "xs \<noteq> []"
  shows "\<exists>k. argmax [map Some xs] = Inr k \<and> k < length xs \<and>
     (\<forall>j<length xs. xs ! j \<le> xs ! k) \<and> (\<forall>j<k. xs ! j < xs ! k)"
proof -
  obtain x rest where xs: "xs = x # rest" using assms by (cases xs) auto
  show ?thesis
    using argmax_from_spec [of 0 "[x]" x 1 rest] by (simp add: argmax_def xs)
qed

lemma argmax_from_no_greater:
  "\<forall>x\<in>set xs. x \<le> bv \<Longrightarrow> argmax_from b (Some bv) i (map Some xs) = b"
  by (induction xs arbitrary: i) (auto simp: exceeds_def)

lemma classify_scores:
  assumes "sim [map Some q] S = Inr [map Some vs]" "vs \<noteq> []"
  shows "\<exists>k. classify sim q S = Inr (k, map Some vs) \<and> k < length vs \<and>
     (\<forall>j<length vs. vs ! j \<le> vs ! k) \<and> (\<forall>j<k. vs ! j < vs ! k)"
proof -
  obtain k where k: "argmax [map Some vs] = Inr k" "k < length vs"
    "\<forall>j<length vs. vs ! j \<le> vs ! k" "\<forall>j<k. vs ! j < vs ! k"
    using argmax_row [OF assms(2)] by blast
  have "classify sim q S = Inr (k, map Some vs)"
    by (simp add: classify_def assms(1) k(1))
  with k show ?thesis by blast
qed

subsection \<open>The classifier\<close>













subsection \<open>The handler of backend.py\<close>

lemma normalize_copy_eq:
  "normalize_copy h a =
     (case finite_values (h ! a) of
        None \<Rightarrow> (Inl ValueError, h @ [h ! a])
      | Some M \<Rightarrow> (Inr (length h), h @ [normalize_l2 M]))"
  by (simp add: normalize_copy_def alloc_def split: option.splits)

lemma check_pairwise_arrays_Inr:
  "check_pairwise_arrays X Y = Inr (X', Y') \<Longrightarrow>
     finite_values X = Some X' \<and> finite_values Y = Some Y'"
  by (auto simp: check_pairwise_arrays_def split: option.splits list.splits if_splits)

lemma cosine_similarity_at_eq:
  assumes "X < length h" "Y < length h"
  shows "fst (cosine_similarity_at h X Y) =
           map_sum id (\<lambda>K. length h + 2) (cosine_similarity (h ! X) (h ! Y)) \<and>
         (\<forall>K. cosine_similarity (h ! X) (h ! Y) = Inr K \<longrightarrow>
            snd (cosine_similarity_at h X Y) ! (length h + 2) = K)"
proof (cases "check_pairwise_arrays (h ! X) (h ! Y)")
  case (Inl e)
  then show ?thesis
    by (simp add: cosine_similarity_at_def cosine_similarity_def)
next
  case (Inr p)
  obtain X' Y' where p: "p = (X', Y')" by (cases p)
  have fin: "finite_values (h ! X) = Some X'" "finite_values (h ! Y) = Some Y'"
    using check_pairwise_arrays_Inr [of "h ! X" "h ! Y" X' Y'] Inr p by simp_all
  show ?thesis
    using assms
    by (simp add: cosine_similarity_at_def cosine_similarity_def Inr p normalize_copy_eq fin
        alloc_def nth_append)
qed

lemma cosine_similarity_at_extends:
  "\<exists>ext. snd (cosine_similarity_at h X Y) = h @ ext"
  by (auto simp: cosine_similarity_at_def normalize_copy_eq alloc_def
      split: sum.splits option.splits prod.splits)

lemma predict_valid:
  assumes "image_open lib bs = Inr img" "state_ok st"
  shows "fst (predict lib st bs) =
     (case classify cosine_similarity (model lib (transform lib img))
             (heap st ! support_embeddings st) of
        Inl e \<Rightarrow> Inl e
      | Inr (k, sims) \<Rightarrow>
          if k < length (support_labels st)
          then Inr \<lparr>predicted_class_id = int k, predicted_class_label = support_labels st ! k\<rparr>
          else Inl IndexError)"
proof -
  let ?q = "model lib (transform lib img)"
  let ?h1 = "heap st @ [[map Some ?q]]"
  have a: "length (heap st) < length ?h1" and b: "support_embeddings st < length ?h1"
    using assms(2) by (simp_all add: state_ok_def)
  have q: "?h1 ! length (heap st) = [map Some ?q]" by simp
  have s: "?h1 ! support_embeddings st = heap st ! support_embeddings st"
    using assms(2) by (simp add: state_ok_def nth_append)
  note at = cosine_similarity_at_eq [OF a b, unfolded q s]
  obtain r h2 where rh: "cosine_similarity_at ?h1 (length (heap st)) (support_embeddings st) = (r, h2)"
    by (cases "cosine_similarity_at ?h1 (length (heap st)) (support_embeddings st)")
  show ?thesis
  proof (cases "cosine_similarity [map Some ?q] (heap st ! support_embeddings st)")
    case (Inl e)
    then have "r = Inl e" using at rh by simp
    then show ?thesis
      by (simp add: predict_def assms(1) alloc_def rh classify_def Inl Let_def)
  next
    case (Inr K)
    then have "r = Inr (length ?h1 + 2)" "h2 ! (length ?h1 + 2) = K" using at rh by simp_all
    then show ?thesis
      by (simp add: predict_def assms(1) alloc_def rh classify_def Inr Let_def split: sum.splits)
  qed
qed

lemma predict_state:
  "\<exists>ext. snd (predict lib st bs) = st\<lparr>heap := heap st @ ext\<rparr>"
proof (cases "image_open lib bs")
  case (Inl e)
  then have "snd (predict lib st bs) = st\<lparr>heap := heap st @ []\<rparr>"
    by (simp add: predict_def)
  then show ?thesis by (rule exI)
next
  case (Inr img)
  obtain ext where ext:
    "snd (cosine_similarity_at (heap st @ [[map Some (model lib (transform lib img))]])
       (length (heap st)) (support_embeddings st)) =
     (heap st @ [[map Some (model lib (transform lib img))]]) @ ext"
    using cosine_similarity_at_extends by blast
  have "snd (predict lib st bs) =
      st\<lparr>heap := heap st @ ([[map Some (model lib (transform lib img))]] @ ext)\<rparr>"
    using ext
    by (auto simp: predict_def Inr alloc_def Let_def split: prod.splits sum.splits)
  then show ?thesis by (rule exI)
qed

lemma image_open_empty: "image_open lib [] = Inl UnidentifiedImageError"
  by (simp add: image_open_def)

lemma image_open_example:
  "image_open example_libraries [1, 0] = Inr [1, 0]"
  "image_open example_libraries [0, 0] = Inr [0, 0]"
  by (simp_all add: image_open_def example_libraries_def)

lemma example_library_fields:
  "model example_libraries t = t" "transform example_libraries i = i"
  by (simp_all add: example_libraries_def)

lemma startup_fields:
  "support_embeddings (startup E) = 0" "heap (startup E) = [E]"
  "support_labels (startup E) ! 0 = ''cataract''"
  "support_labels (startup E) ! Suc 0 = ''healthy''"
  "length (support_labels (startup E)) = 10"
  "state_ok (startup E)"
  by (simp_all add: startup_def state_ok_def)

lemma classify_well_formed:
  assumes "well_formed q S"
  shows "\<exists>k M. S = finite_array M \<and>
     classify cosine_similarity q S = Inr (k, map Some (map (guarded_cosine q) M)) \<and>
     k < length S"
proof -
  obtain M where M: "S = finite_array M" "M \<noteq> []" "list_all (\<lambda>s. length s = length q) M"
    using well_formed_finite [OF assms] by blast
  have q: "q \<noteq> []" using assms by (simp add: well_formed_def)
  have sim: "cosine_similarity [map Some q] S = Inr [map Some (map (guarded_cosine q) M)]"
    unfolding M(1) by (rule cosine_similarity_query [OF q M(2,3)])
  have "map (guarded_cosine q) M \<noteq> []" using M(2) by simp
  then obtain k where k:
    "classify cosine_similarity q S = Inr (k, map Some (map (guarded_cosine q) M))"
    "k < length (map (guarded_cosine q) M)"
    using classify_scores [of cosine_similarity q S "map (guarded_cosine q) M"] sim by blast
  have "k < length S" using k(2) M(1) by (simp add: finite_array_def)
  with k(1) M(1) show ?thesis by blast
qed

lemma classify_zero_query:
  assumes "well_formed q S" "row_norm q = 0"
  shows "classify cosine_similarity q S = Inr (0, replicate (length S) (Some 0))"
proof -
  obtain M where M: "S = finite_array M" "M \<noteq> []" "list_all (\<lambda>s. length s = length q) M"
    using well_formed_finite [OF assms(1)] by blast
  have q: "q \<noteq> []" using assms(1) by (simp add: well_formed_def)
  have sim: "cosine_similarity [map Some q] S = Inr [map Some (map (guarded_cosine q) M)]"
    unfolding M(1) by (rule cosine_similarity_query [OF q M(2,3)])
  have "guarded_cosine q = (\<lambda>s. 0)"
    using assms(2) by (intro ext) (simp add: guarded_cosine_zero_query)
  then have m: "map (guarded_cosine q) M = replicate (length M) 0"
    by (simp add: map_replicate_const)
  obtain n where n: "length M = Suc n" using M(2) by (cases M) simp_all
  have len: "length S = length M" by (simp add: M(1) finite_array_def)
  have "argmax [map Some (replicate (length M) 0)] = Inr 0"
    using argmax_from_no_greater [of "replicate n 0" 0 0 1]
    by (simp add: argmax_def n)
  then show ?thesis
    by (simp add: classify_def sim m len)
qed

lemma normalize_row_zero:
  assumes "row_norm q = 0"
  shows "normalize_row q = replicate (length q) (Some 0)"
proof -
  have z: "\<forall>v\<in>set q. v = 0" using assms by (simp add: row_norm_zero_iff)
  have "handle_zeros_in_scale (row_norm q) = 1"
    by (simp add: assms handle_zeros_in_scale_def float32_eps_def)
  then have "normalize_row q = map Some q"
    by (simp add: normalize_row_Some)
  also have "\<dots> = replicate (length q) (Some 0)"
    using z by (induction q) simp_all
  finally show ?thesis .
qed

lemma example_well_formed:
  "well_formed [1, 0] (finite_array [[0, 1], [1, 0]])"
  "well_formed [0, 0] (finite_array [[0, 1], [1, 0]])"
  by (simp_all add: well_formed_finite_array)

lemma example_length: "length (finite_array [[0, 1], [1, 0]]) = 2"
  by (simp add: finite_array_def)

text \<open>
  Claim C2. For a valid image, when the global tensor exists, the support array is one
  the similarity routine accepts for the embedding of the image, and the support array
  has no more rows than there are labels, the handler returns a response whose class id
  is an integer in \<open>[0, N)\<close>, \<open>N\<close> the number of support rows, and whose label is
  the entry of \<open>support_labels\<close> at that index.
\<close>

theorem predict_class_in_range:
  assumes "image_open lib bs = Inr img" and "state_ok st"
    and "well_formed (model lib (transform lib img)) (heap st ! support_embeddings st)"
    and "length (heap st ! support_embeddings st) \<le> length (support_labels st)"
  shows "\<exists>r. fst (predict lib st bs) = Inr r \<and>
     0 \<le> predicted_class_id r \<and>
     predicted_class_id r < int (length (heap st ! support_embeddings st)) \<and>
     predicted_class_label r = support_labels st ! nat (predicted_class_id r)"
proof -
  obtain k sims where k:
    "classify cosine_similarity (model lib (transform lib img)) (heap st ! support_embeddings st) =
      Inr (k, sims)"
    "k < length (heap st ! support_embeddings st)"
    using classify_well_formed [OF assms(3)] by blast
  have "k < length (support_labels st)" using k(2) assms(4) by simp
  then have "fst (predict lib st bs) =
      Inr \<lparr>predicted_class_id = int k, predicted_class_label = support_labels st ! k\<rparr>"
    by (simp add: predict_valid [OF assms(1,2)] k(1))
  then show ?thesis using k(2) by simp
qed

theorem predict_class_in_range_witness:
  "image_open example_libraries [1, 0] = Inr [1, 0] \<and>
   state_ok (startup (finite_array [[0, 1], [1, 0]])) \<and>
   well_formed (model example_libraries (transform example_libraries [1, 0]))
     (heap (startup (finite_array [[0, 1], [1, 0]])) !
        support_embeddings (startup (finite_array [[0, 1], [1, 0]]))) \<and>
   length (heap (startup (finite_array [[0, 1], [1, 0]])) !
        support_embeddings (startup (finite_array [[0, 1], [1, 0]])))
     \<le> length (support_labels (startup (finite_array [[0, 1], [1, 0]]))) \<and>
   (\<exists>r. fst (predict example_libraries (startup (finite_array [[0, 1], [1, 0]])) [1, 0]) = Inr r \<and>
      predicted_class_id r = 1 \<and> predicted_class_label r = ''healthy'')"
proof -
  have c: "classify cosine_similarity [1, 0] (finite_array [[0, 1], [1, 0]]) =
      Inr (1, [Some 0, Some 1])"
    by (simp add: classify_def example_scores argmax_def exceeds_def)
  have p: "fst (predict example_libraries (startup (finite_array [[0, 1], [1, 0]])) [1, 0]) =
      Inr \<lparr>predicted_class_id = 1, predicted_class_label = ''healthy''\<rparr>"
    by (simp add: predict_valid [OF image_open_example(1) startup_fields(6)]
        example_library_fields startup_fields c)
  show ?thesis
    using predict_class_in_range [of example_libraries "[1, 0]" "[1, 0]"
        "startup (finite_array [[0, 1], [1, 0]])"]
    by (simp add: image_open_example example_library_fields startup_fields example_well_formed
        example_length p)
qed

text \<open>
  Claim C5, as amended. For an upload whose bytes are not a valid image, empty payload
  included, the handler builds no response: the decoder's exception leaves the handler
  as it is, and the shared state is the one before the request.
\<close>

theorem predict_invalid_image_raises:
  "image_open lib bs = Inl e \<Longrightarrow> predict lib st bs = (Inl e, st)"
  by (simp add: predict_def)

theorem predict_invalid_image_raises_witness:
  "image_open example_libraries [] = Inl UnidentifiedImageError \<and>
   predict example_libraries (startup (finite_array [[0, 1], [1, 0]])) [] =
     (Inl UnidentifiedImageError, startup (finite_array [[0, 1], [1, 0]]))"
  using predict_invalid_image_raises [of example_libraries "[]" UnidentifiedImageError
      "startup (finite_array [[0, 1], [1, 0]])"]
  by (simp add: image_open_empty)

text \<open>
  Claim C5 as stated fails: on the empty payload the result of the handler is the
  exception \<open>UnidentifiedImageError\<close> leaving it, not a decode-error response.
\<close>

theorem predict_decode_error_counterexample:
  "fst (predict example_libraries (startup (finite_array [[0, 1], [1, 0]])) []) =
     Inl UnidentifiedImageError \<and>
   isl (fst (predict example_libraries (startup (finite_array [[0, 1], [1, 0]])) []))"
  by (simp add: predict_def image_open_def)

text \<open>
  Claim C8. A request to the handler leaves the shared state as it is: the name
  \<open>support_embeddings\<close> is bound to the same tensor, the buffer of that tensor holds the
  same values, the list \<open>support_labels\<close> is the same, and every buffer that existed
  before the request is unchanged (the request only adds buffers of its own). The
  state after the request again has its tensor in the store.
\<close>

theorem predict_preserves_support_set:
  assumes "state_ok st"
  shows "support_embeddings (snd (predict lib st bs)) = support_embeddings st \<and>
     support_labels (snd (predict lib st bs)) = support_labels st \<and>
     heap (snd (predict lib st bs)) ! support_embeddings st = heap st ! support_embeddings st \<and>
     take (length (heap st)) (heap (snd (predict lib st bs))) = heap st \<and>
     state_ok (snd (predict lib st bs))"
proof -
  obtain ext where "snd (predict lib st bs) = st\<lparr>heap := heap st @ ext\<rparr>"
    using predict_state by blast
  then show ?thesis
    using assms by (simp add: state_ok_def nth_append)
qed

theorem predict_preserves_support_set_witness:
  "state_ok (startup (finite_array [[0, 1], [1, 0]])) \<and>
   support_embeddings
     (snd (predict example_libraries (startup (finite_array [[0, 1], [1, 0]])) [1, 0])) = 0 \<and>
   heap (snd (predict example_libraries (startup (finite_array [[0, 1], [1, 0]])) [1, 0])) ! 0 =
     finite_array [[0, 1], [1, 0]] \<and>
   support_labels (snd (predict example_libraries (startup (finite_array [[0, 1], [1, 0]])) [1, 0])) =
     support_labels (startup (finite_array [[0, 1], [1, 0]]))"
  using predict_preserves_support_set [of "startup (finite_array [[0, 1], [1, 0]])"
      example_libraries "[1, 0]"]
  by (simp add: startup_fields)

text \<open>
  Claim C9. For a valid image whose embedding has norm zero, that is, the zero vector
  (and a support array that the similarity routine accepts, with at least one label),
  the classifier does not
  raise and no score is NaN: the guard replaces the zero norm by one, so the normalised
  query is the zero row of finite numbers, every score is 0, the arg-max is index 0, and
  the handler returns class id 0 with the label at index 0.
\<close>

theorem predict_zero_norm_query:
  assumes "image_open lib bs = Inr img" and "state_ok st"
    and "well_formed (model lib (transform lib img)) (heap st ! support_embeddings st)"
    and "row_norm (model lib (transform lib img)) = 0"
    and "support_labels st \<noteq> []"
  shows "normalize_row (model lib (transform lib img)) =
       replicate (length (model lib (transform lib img))) (Some 0) \<and>
     classify cosine_similarity (model lib (transform lib img)) (heap st ! support_embeddings st) =
       Inr (0, replicate (length (heap st ! support_embeddings st)) (Some 0)) \<and>
     fst (predict lib st bs) =
       Inr \<lparr>predicted_class_id = 0, predicted_class_label = support_labels st ! 0\<rparr>"
  using assms(5)
  by (simp add: predict_valid [OF assms(1,2)] classify_zero_query [OF assms(3,4)]
      normalize_row_zero [OF assms(4)])

theorem predict_zero_norm_query_witness:
  "image_open example_libraries [0, 0] = Inr [0, 0] \<and>
   state_ok (startup (finite_array [[0, 1], [1, 0]])) \<and>
   well_formed (model example_libraries (transform example_libraries [0, 0]))
     (heap (startup (finite_array [[0, 1], [1, 0]])) !
        support_embeddings (startup (finite_array [[0, 1], [1, 0]]))) \<and>
   row_norm (model example_libraries (transform example_libraries [0, 0])) = 0 \<and>
   support_labels (startup (finite_array [[0, 1], [1, 0]])) \<noteq> [] \<and>
   fst (predict example_libraries (startup (finite_array [[0, 1], [1, 0]])) [0, 0]) =
       Inr \<lparr>predicted_class_id = 0, predicted_class_label = ''cataract''\<rparr>"
proof -
  have l: "support_labels (startup (finite_array [[0, 1], [1, 0]])) \<noteq> []"
    by (simp add: startup_def)
  show ?thesis
    using predict_zero_norm_query [of example_libraries "[0, 0]" "[0, 0]"
        "startup (finite_array [[0, 1], [1, 0]])"]
    by (simp add: image_open_example example_library_fields startup_fields example_well_formed l)
qed

subsection \<open>The handler of app/main.py\<close>

lemma load_image_tensor:
  "load_name [''file'' \<mapsto> PyObject, ''image_data'' \<mapsto> PyObject, ''image'' \<mapsto> PyObject]
     (module_globals features labels) ''image_tensor'' = Inl (NameError ''image_tensor'')"
  by (simp add: load_name_def module_globals_def builtin_names_def)

lemma load_model:
  "load_name [''file'' \<mapsto> PyObject, ''image_data'' \<mapsto> PyObject, ''image'' \<mapsto> PyObject]
     (module_globals features labels) ''model'' = Inr PyObject"
  by (simp add: load_name_def module_globals_def)

text \<open>
  Claim C10, as amended. Every request to the handler of app/main.py ends in an exception
  and never in a response: the decoder's exception when the bytes are not a valid image,
  and otherwise \<open>NameError\<close> for \<open>image_tensor\<close>, the first of the unbound names that
  the handler reads.
\<close>

theorem main_predict_raises:
  "main_predict lib (module_globals features labels) bs =
     (case image_open lib bs of
        Inl e \<Rightarrow> Inl e
      | Inr img \<Rightarrow> Inl (NameError ''image_tensor'')) \<and>
   isl (main_predict lib (module_globals features labels) bs)"
  by (simp add: main_predict_def load_image_tensor load_model bind_result_def Let_def
      split: sum.splits)

text \<open>
  Claim C10 as stated fails: on the empty payload the exception is the decoder's
  \<open>UnidentifiedImageError\<close>, raised before any unbound name is read, not a
  \<open>NameError\<close>.
\<close>

theorem main_predict_counterexample:
  "main_predict example_libraries (module_globals [] []) [] = Inl UnidentifiedImageError \<and>
   main_predict example_libraries (module_globals [] []) [] \<noteq> Inl (NameError ''image_tensor'')"
  by (simp add: main_predict_def image_open_def)

end